theory Spec2Isabelle
  imports Complex_Main
begin

section \<open>Python values and exceptions\<close>

text \<open>
  The module \<^verbatim>\<open>QOpenScienceFramework/connection.py\<close> keeps one global OAuth2 session and
  wraps every API call in the decorator \<^verbatim>\<open>requires_authentication\<close>. Exceptions are
  values of type \<open>error\<close>; a function that can raise returns \<open>error + 'a\<close>, with
  \<open>Inl\<close> for the exception.
\<close>

datatype error =
    TokenExpiredError string
  | OSFInvalidResponse string
  | AttributeError
  | KeyError
  | IndexError
  | TypeError
  | ValueError
  | NameError string
  | FieldNotModelled
  | External string

text \<open>
  \<open>External\<close> stands for an exception raised inside a third-party library
  (\<^verbatim>\<open>requests\<close>, \<^verbatim>\<open>requests_oauthlib\<close>, \<^verbatim>\<open>oauthlib\<close>). \<open>FieldNotModelled\<close> is not a
  Python exception: it marks a replacement field that \<open>format_py\<close> below does not
  model.
\<close>

datatype json =
    JNull
  | JBool bool
  | JNum real
  | JStr string
  | JArr "json list"
  | JObj "(string \<times> json) list"

section \<open>Endpoint resolution\<close>

text \<open>
  \<^verbatim>\<open>settings.json\<close> is not part of the sources; the values read from it are the fields of
  a record that every function takes.
\<close>

record settings =
  base_url :: string
  api_base_url :: string
  scope :: string
  website_url :: string

definition auth_url :: "settings \<Rightarrow> string" where
  "auth_url cfg = base_url cfg @ ''oauth2/authorize''"

definition token_url :: "settings \<Rightarrow> string" where
  "token_url cfg = base_url cfg @ ''oauth2/token''"

definition logout_url :: "settings \<Rightarrow> string" where
  "logout_url cfg = base_url cfg @ ''oauth2/revoke''"

definition api_calls :: "string \<rightharpoonup> string" where
  "api_calls = map_of
     [(''logged_in_user'', ''users/me/''),
      (''projects'', ''users/me/nodes/''),
      (''project_repos'', ''nodes/{}/files/''),
      (''repo_files'', ''nodes/{}/files/{}/''),
      (''file_info'', ''files/{}/'')]"

text \<open>
  \<^verbatim>\<open>str.format(*args)\<close> on a template of literal text, the escapes \<^verbatim>\<open>{{\<close> and \<^verbatim>\<open>}}\<close>, and
  auto-numbered fields \<^verbatim>\<open>{}\<close>: the template is read from left to right, each field takes
  the next positional argument, and a field with no argument left raises IndexError.
  Arguments that no field uses are ignored. A lone brace is a ValueError. Any other field
  (\<^verbatim>\<open>{0}\<close>, \<^verbatim>\<open>{name}\<close>, a conversion or a format specification) is outside this model; no
  template of the module has one. The arguments are the \<^verbatim>\<open>str()\<close> of the Python
  arguments.
\<close>

definition prepend :: "char \<Rightarrow> error + string \<Rightarrow> error + string" where
  "prepend c r = (case r of Inl e \<Rightarrow> Inl e | Inr s \<Rightarrow> Inr (c # s))"

fun format_py :: "string \<Rightarrow> string list \<Rightarrow> error + string" where
  "format_py [] args = Inr []"
| "format_py [c] args =
     (if c = CHR ''{'' \<or> c = CHR ''}'' then Inl ValueError else Inr [c])"
| "format_py (c # d # rest) args =
     (if c = CHR ''{'' \<and> d = CHR ''}'' then
        (case args of
           [] \<Rightarrow> Inl IndexError
         | a # as \<Rightarrow>
             (case format_py rest as of Inl e \<Rightarrow> Inl e | Inr r \<Rightarrow> Inr (a @ r)))
      else if c = CHR ''{'' \<and> d = CHR ''{'' then prepend c (format_py rest args)
      else if c = CHR ''{'' then Inl FieldNotModelled
      else if c = CHR ''}'' \<and> d = CHR ''}'' then prepend c (format_py rest args)
      else if c = CHR ''}'' then Inl ValueError
      else prepend c (format_py (d # rest) args))"

text \<open>The number of \<^verbatim>\<open>{}\<close> fields of a template, read the same way.\<close>

fun placeholders :: "string \<Rightarrow> nat" where
  "placeholders [] = 0"
| "placeholders [c] = 0"
| "placeholders (c # d # rest) =
     (if c = CHR ''{'' \<and> d = CHR ''}'' then Suc (placeholders rest)
      else if (c = CHR ''{'' \<and> d = CHR ''{'') \<or> (c = CHR ''}'' \<and> d = CHR ''}'')
        then placeholders rest
      else placeholders (d # rest))"

text \<open>
  \<^verbatim>\<open>return api_base_url + api_calls[command].format(*args)\<close>: a missing key is Python's
  KeyError, and the failure of \<^verbatim>\<open>format\<close> is raised as it is.
\<close>

definition api_call :: "settings \<Rightarrow> string \<Rightarrow> string list \<Rightarrow> error + string" where
  "api_call cfg command args =
     (case api_calls command of
        None \<Rightarrow> Inl KeyError
      | Some t \<Rightarrow>
          (case format_py t args of
             Inl e \<Rightarrow> Inl e
           | Inr u \<Rightarrow> Inr (api_base_url cfg @ u)))"

section \<open>The session and the world around it\<close>

text \<open>
  The global \<^verbatim>\<open>session\<close> is \<^verbatim>\<open>None\<close> until \<^verbatim>\<open>create_session\<close> runs, then an
  \<^verbatim>\<open>OAuth2Session\<close> of \<^verbatim>\<open>requests_oauthlib\<close>. The module reads three of its attributes:
  \<^verbatim>\<open>authorized\<close>, \<^verbatim>\<open>token\<close> (a dictionary) and \<^verbatim>\<open>access_token\<close>. The dictionary is an
  association list; its values are strings or numbers.
\<close>

datatype tval = TStr string | TNum real

type_synonym token_dict = "(string \<times> tval) list"

record oauth2_session =
  authorized :: bool
  token :: token_dict
  access_token :: "string option"

datatype request =
    Get string
  | Post string "(string \<times> string option) list"

text \<open>
  A \<^verbatim>\<open>requests.Response\<close>: \<open>content_type\<close> is \<^verbatim>\<open>headers['content-type']\<close> (\<open>None\<close> when
  the header is absent, where the lookup raises KeyError), and \<open>json_body\<close> is what
  \<^verbatim>\<open>response.json()\<close> gives: the decoded value, or \<open>Inl\<close> the message of the
  JSONDecodeError.
\<close>

record response =
  status_code :: int
  reason :: string
  content_type :: "string option"
  content :: string
  json_body :: "string + json"

text \<open>The remote side: the answer to a request, or an exception of the HTTP library.\<close>

type_synonym network = "request \<Rightarrow> error + response"

datatype level = DEBUG | INFO

text \<open>
  Everything the module can change: the global session, the requests sent over the
  network, the lines written by \<^verbatim>\<open>print\<close> and the records handed to \<^verbatim>\<open>logging\<close>.
\<close>

record world =
  session :: "oauth2_session option"
  sent :: "request list"
  printed :: "string list"
  logged :: "(level \<times> string) list"

definition is_authorized :: "world \<Rightarrow> error + bool" where
  "is_authorized w =
     (case session w of
        None \<Rightarrow> Inl AttributeError
      | Some s \<Rightarrow> Inr (authorized s))"

text \<open>
  \<^verbatim>\<open>time.time()\<close> is the argument \<open>now\<close>. \<^verbatim>\<open>hasattr(None, "token")\<close> is false, and an empty
  dictionary is falsy. Comparing a string with a number is Python 3's TypeError.
\<close>

definition token_valid :: "world \<Rightarrow> real \<Rightarrow> error + bool" where
  "token_valid w now =
     (case session w of
        None \<Rightarrow> Inr False
      | Some s \<Rightarrow>
          if token s = [] then Inr False
          else
            (case map_of (token s) ''expires_at'' of
               None \<Rightarrow> Inl KeyError
             | Some (TNum e) \<Rightarrow> Inr (e > now)
             | Some (TStr x) \<Rightarrow> Inl TypeError))"

text \<open>
  \<^verbatim>\<open>logout\<close> posts the access token to the revocation endpoint. On status 204 it logs and
  then evaluates \<^verbatim>\<open>reset_session()\<close>; the module defines and imports no such name, so
  the call raises NameError before the assignment to \<^verbatim>\<open>session\<close>.
\<close>

definition logout :: "settings \<Rightarrow> network \<Rightarrow> world \<Rightarrow> (error + bool) \<times> world" where
  "logout cfg net w =
     (case session w of
        None \<Rightarrow> (Inl AttributeError, w)
      | Some s \<Rightarrow>
          (let req = Post (logout_url cfg) [(''token'', access_token s)];
               w1 = w\<lparr>sent := sent w @ [req]\<rparr>
           in case net req of
                Inl e \<Rightarrow> (Inl e, w1)
              | Inr resp \<Rightarrow>
                  if status_code resp = 204 then
                    (Inl (NameError ''reset_session''),
                     w1\<lparr>logged := logged w1 @ [(INFO, ''User logged out'')]\<rparr>)
                  else
                    (Inr False,
                     w1\<lparr>logged := logged w1 @ [(DEBUG, ''Error logging out'')]\<rparr>)))"

subsection \<open>The library call \<^verbatim>\<open>token_from_fragment\<close>\<close>

text \<open>
  Modelled from the spec: \<^verbatim>\<open>OAuth2Session.token_from_fragment\<close> belongs to
  \<^verbatim>\<open>requests_oauthlib\<close> and \<^verbatim>\<open>oauthlib\<close> and is not part of the sources. The spec says that
  it extracts the token fragment, the part of the redirect URL after \<^verbatim>\<open>#\<close> carrying the
  access token and expiry parameters, stores the token on the session, and fails when the
  URL lacks the fragment or the state parameter does not match. The definitions of this
  subsection follow the steps of the library in their order. They leave out what the spec
  does not speak of: percent-escapes are not decoded, the transport check compares the
  scheme as it is written, \<^verbatim>\<open>int()\<close> accepts decimal digits only, and a \<^verbatim>\<open>scope\<close> parameter
  stays a string.
\<close>

















section \<open>The decorator \<^verbatim>\<open>requires_authentication\<close>\<close>

fun str_nat :: "nat \<Rightarrow> string" where
  "str_nat n =
     (if n < 10 then [''0123456789'' ! n]
      else str_nat (n div 10) @ [''0123456789'' ! (n mod 10)])"

definition str_int :: "int \<Rightarrow> string" where
  "str_int i = (if i < 0 then CHR ''-'' # str_nat (nat (- i)) else str_nat (nat i))"

text \<open>
  After \<^verbatim>\<open>response = response.json()\<close> the variable \<^verbatim>\<open>response\<close> holds the decoded
  value instead of the \<^verbatim>\<open>Response\<close> object.
\<close>

datatype pyobj = Resp response | Parsed json

text \<open>Only a dictionary has \<^verbatim>\<open>keys()\<close>.\<close>

definition keys_py :: "pyobj \<Rightarrow> error + string list" where
  "keys_py r =
     (case r of
        Parsed (JObj kvs) \<Rightarrow> Inr (map fst kvs)
      | _ \<Rightarrow> Inl AttributeError)"

text \<open>\<^verbatim>\<open>v[key]\<close> for a string key, and \<^verbatim>\<open>v[0]\<close>, on a decoded JSON value.\<close>

definition subscript_key :: "json \<Rightarrow> string \<Rightarrow> error + json" where
  "subscript_key v k =
     (case v of
        JObj kvs \<Rightarrow> (case map_of kvs k of None \<Rightarrow> Inl KeyError | Some x \<Rightarrow> Inr x)
      | _ \<Rightarrow> Inl TypeError)"

definition subscript_0 :: "json \<Rightarrow> error + json" where
  "subscript_0 v =
     (case v of
        JArr xs \<Rightarrow> (case xs of [] \<Rightarrow> Inl IndexError | x # _ \<Rightarrow> Inr x)
      | JStr s \<Rightarrow> (case s of [] \<Rightarrow> Inl IndexError | c # _ \<Rightarrow> Inr (JStr [c]))
      | JObj kvs \<Rightarrow> Inl KeyError
      | _ \<Rightarrow> Inl TypeError)"

text \<open>\<^verbatim>\<open>response['errors'][0]['detail']\<close>\<close>

definition error_detail :: "pyobj \<Rightarrow> error + json" where
  "error_detail r =
     (case r of
        Resp _ \<Rightarrow> Inl TypeError
      | Parsed j \<Rightarrow>
          (case subscript_key j ''errors'' of
             Inl e \<Rightarrow> Inl e
           | Inr es \<Rightarrow>
               (case subscript_0 es of
                  Inl e \<Rightarrow> Inl e
                | Inr e0 \<Rightarrow> subscript_key e0 ''detail'')))"

definition invalid_token_msg :: string where
  "invalid_token_msg = ''User provided an invalid OAuth2 access token''"

definition format_error_msg :: string where
  "format_error_msg =
     ''An error occured, but OSF error '' @ replicate 6 (CHR 0x09) @
     ''message could not be retrieved. Invalid format?''"

definition error_template :: string where
  "error_template = ''Could not handle response {}: {}\<newline>Content Type: {}\<newline>{}''"

text \<open>
  Lines 186 to 201: the exception that ends the wrapper when nothing was returned or
  raised before. \<^verbatim>\<open>response.headers\<close> is read from whatever \<^verbatim>\<open>response\<close> holds by then;
  a decoded JSON value has no attribute \<^verbatim>\<open>headers\<close>. The body is written into the message as
  text; Python 3 writes the \<^verbatim>\<open>repr\<close> of the bytes object there.
\<close>

definition report :: "pyobj \<Rightarrow> error" where
  "report r =
     (case r of
        Parsed _ \<Rightarrow> AttributeError
      | Resp resp \<Rightarrow>
          (case content_type resp of
             None \<Rightarrow> KeyError
           | Some ct \<Rightarrow>
               (let message =
                      (if ct \<notin> set [''text/html'', ''application/octet-stream'']
                       then content resp else [])
                in case format_py error_template
                          [str_int (status_code resp), reason resp, ct, message] of
                     Inl e \<Rightarrow> e
                   | Inr t \<Rightarrow> OSFInvalidResponse t)))"

datatype retval = RBool bool | RJson json | RContent string

text \<open>
  Lines 167 to 201. When \<^verbatim>\<open>response.json()\<close> raises JSONDecodeError the handler builds an
  \<^verbatim>\<open>OSFInvalidResponse\<close> and does not raise it, so \<^verbatim>\<open>response\<close> stays the
  \<^verbatim>\<open>Response\<close> object. The \<^verbatim>\<open>try\<close> around the subscripts catches AttributeError only.
\<close>

definition handle_error ::
  "settings \<Rightarrow> network \<Rightarrow> response \<Rightarrow> world \<Rightarrow> (error + retval) \<times> world" where
  "handle_error cfg net resp w =
     (case content_type resp of
        None \<Rightarrow> (Inl KeyError, w)
      | Some ct \<Rightarrow>
          if ct \<in> set [''application/json'', ''application/vnd.api+json''] then
            (let r = (case json_body resp of Inl m \<Rightarrow> Resp resp | Inr j \<Rightarrow> Parsed j)
             in case keys_py r of
                  Inl e \<Rightarrow> (Inl e, w)
                | Inr ks \<Rightarrow>
                    if ''errors'' \<in> set ks then
                      (case error_detail r of
                         Inl e \<Rightarrow>
                           if e = AttributeError
                           then (Inl (OSFInvalidResponse format_error_msg), w)
                           else (Inl e, w)
                       | Inr msg \<Rightarrow>
                           if msg = JStr invalid_token_msg then
                             (case logout cfg net w of
                                (Inl e, w') \<Rightarrow> (Inl e, w')
                              | (Inr b, w') \<Rightarrow>
                                  (Inl (TokenExpiredError invalid_token_msg), w'))
                           else (Inl (report r), w))
                    else (Inl (report r), w))
          else (Inl (report (Resp resp)), w))"

text \<open>Lines 152 to 166, then the rest.\<close>

definition classify ::
  "settings \<Rightarrow> network \<Rightarrow> response \<Rightarrow> world \<Rightarrow> (error + retval) \<times> world" where
  "classify cfg net resp w =
     (if status_code resp = 200 then
        (case content_type resp of
           None \<Rightarrow> (Inl KeyError, w)
         | Some ct \<Rightarrow>
             if ct = ''application/vnd.api+json'' then
               (case json_body resp of
                  Inl m \<Rightarrow>
                    (Inl (OSFInvalidResponse (''Could not decode response to JSON: '' @ m)), w)
                | Inr j \<Rightarrow> (Inr (RJson j), w))
             else if ct = ''application/octet-stream'' then (Inr (RContent (content resp)), w)
             else handle_error cfg net resp w)
      else handle_error cfg net resp w)"

text \<open>
  The wrapped function \<open>func\<close> issues the request: it takes the world and gives the
  response (or an exception) and the world after the call.
\<close>

type_synonym api_func = "world \<Rightarrow> (error + response) \<times> world"

definition func_wrapper ::
  "settings \<Rightarrow> network \<Rightarrow> real \<Rightarrow> api_func \<Rightarrow> world \<Rightarrow> (error + retval) \<times> world" where
  "func_wrapper cfg net now func w =
     (case is_authorized w of
        Inl e \<Rightarrow> (Inl e, w)
      | Inr a \<Rightarrow>
          if \<not> a then
            (Inr (RBool False),
             w\<lparr>printed := printed w @ [''You are not authenticated. Please log in first.'']\<rparr>)
          else
            (case token_valid w now of
               Inl e \<Rightarrow> (Inl e, w)
             | Inr v \<Rightarrow>
                 if \<not> v then (Inl (TokenExpiredError ''The supplied token has expired''), w)
                 else
                   (case func w of
                      (Inl e, w1) \<Rightarrow> (Inl e, w1)
                    | (Inr resp, w1) \<Rightarrow> classify cfg net resp w1)))"

section \<open>The API functions\<close>

text \<open>
  \<^verbatim>\<open>session.get(url)\<close>: the attribute is looked up first, then the argument is evaluated,
  then the request goes out. \<open>sent\<close> records every request handed to the library, also
  one for which the library then raises.
\<close>

definition session_get :: "network \<Rightarrow> error + string \<Rightarrow> api_func" where
  "session_get net url w =
     (case session w of
        None \<Rightarrow> (Inl AttributeError, w)
      | Some s \<Rightarrow>
          (case url of
             Inl e \<Rightarrow> (Inl e, w)
           | Inr u \<Rightarrow> (net (Get u), w\<lparr>sent := sent w @ [Get u]\<rparr>)))"

definition get_logged_in_user ::
  "settings \<Rightarrow> network \<Rightarrow> real \<Rightarrow> world \<Rightarrow> (error + retval) \<times> world" where
  "get_logged_in_user cfg net now =
     func_wrapper cfg net now (session_get net (api_call cfg ''logged_in_user'' []))"

definition get_user_projects ::
  "settings \<Rightarrow> network \<Rightarrow> real \<Rightarrow> world \<Rightarrow> (error + retval) \<times> world" where
  "get_user_projects cfg net now =
     func_wrapper cfg net now (session_get net (api_call cfg ''projects'' []))"

definition get_project_repos ::
  "settings \<Rightarrow> network \<Rightarrow> real \<Rightarrow> string \<Rightarrow> world \<Rightarrow> (error + retval) \<times> world" where
  "get_project_repos cfg net now project_id =
     func_wrapper cfg net now
       (session_get net (api_call cfg ''project_repos'' [project_id]))"

definition get_repo_files ::
  "settings \<Rightarrow> network \<Rightarrow> real \<Rightarrow> string \<Rightarrow> string \<Rightarrow> world \<Rightarrow> (error + retval) \<times> world" where
  "get_repo_files cfg net now project_id repo_name =
     func_wrapper cfg net now
       (session_get net (api_call cfg ''repo_files'' [project_id, repo_name]))"

definition direct_api_call ::
  "settings \<Rightarrow> network \<Rightarrow> real \<Rightarrow> string \<Rightarrow> world \<Rightarrow> (error + retval) \<times> world" where
  "direct_api_call cfg net now url =
     func_wrapper cfg net now (session_get net (Inr url))"

section \<open>Concrete inputs\<close>

definition cfg0 :: settings where
  "cfg0 = \<lparr>base_url = ''https://b/'', api_base_url = ''https://a/'', scope = ''s'',
            website_url = ''https://w/''\<rparr>"

text \<open>A session holding a token that expires at time 100, and a fresh session.\<close>

definition s_live :: oauth2_session where
  "s_live = \<lparr>authorized = True,
             token = [(''access_token'', TStr ''abc''), (''expires_at'', TNum 100)],
             access_token = Some ''abc''\<rparr>"

definition s_anon :: oauth2_session where
  "s_anon = \<lparr>authorized = False, token = [], access_token = None\<rparr>"

definition world_of :: "oauth2_session \<Rightarrow> world" where
  "world_of s = \<lparr>session = Some s, sent = [], printed = [], logged = []\<rparr>"

text \<open>The error envelope of the provider: \<^verbatim>\<open>{"errors": [{"detail": d}]}\<close>.\<close>

definition error_body :: "string \<Rightarrow> json" where
  "error_body d = JObj [(''errors'', JArr [JObj [(''detail'', JStr d)]])]"

definition resp_invalid_token :: response where
  "resp_invalid_token =
     \<lparr>status_code = 401, reason = ''Unauthorized'',
      content_type = Some ''application/vnd.api+json'', content = ''{...}'',
      json_body = Inr (error_body invalid_token_msg)\<rparr>"

definition resp_not_found :: response where
  "resp_not_found =
     \<lparr>status_code = 404, reason = ''Not Found'',
      content_type = Some ''application/vnd.api+json'', content = ''{...}'',
      json_body = Inr (error_body ''Not found.'')\<rparr>"

definition resp_bad_json :: response where
  "resp_bad_json =
     \<lparr>status_code = 500, reason = ''Internal Server Error'',
      content_type = Some ''application/json'', content = ''not json'',
      json_body = Inl ''Expecting value''\<rparr>"

definition resp_status :: "int \<Rightarrow> response" where
  "resp_status n =
     \<lparr>status_code = n, reason = [], content_type = Some ''text/html'', content = [],
      json_body = Inl ''Expecting value''\<rparr>"

text \<open>A remote side that answers every GET with \<open>g\<close> and every POST with \<open>p\<close>.\<close>

definition net_of :: "response \<Rightarrow> response \<Rightarrow> network" where
  "net_of g p req = (case req of Get u \<Rightarrow> Inr g | Post u d \<Rightarrow> Inr p)"

definition net_refusing :: network where
  "net_refusing = net_of resp_invalid_token (resp_status 400)"





section \<open>The checks before the call\<close>

text \<open>
  C1, as the code has it: a wrapped call made while \<^verbatim>\<open>is_authorized()\<close> is false prints a
  notice and returns \<^verbatim>\<open>False\<close>. It raises nothing, the wrapped function is not invoked
  (the result is the same for every \<open>func\<close>), no request is sent and the session is as
  before.
\<close>

theorem func_wrapper_unauthorized:
  assumes "is_authorized w = Inr False"
  shows "func_wrapper cfg net now func w =
           (Inr (RBool False),
            w\<lparr>printed := printed w @ [''You are not authenticated. Please log in first.'']\<rparr>)
         \<and> sent (snd (func_wrapper cfg net now func w)) = sent w
         \<and> session (snd (func_wrapper cfg net now func w)) = session w"
  using assms by (simp add: func_wrapper_def)

theorem func_wrapper_unauthorized_witness:
  "is_authorized (world_of s_anon) = Inr False \<and>
   get_logged_in_user cfg0 (net_of resp_not_found (resp_status 400)) 50 (world_of s_anon) =
     (Inr (RBool False),
      \<lparr>session = Some s_anon, sent = [],
       printed = [''You are not authenticated. Please log in first.''], logged = []\<rparr>)"
proof -
  have h: "is_authorized (world_of s_anon) = Inr False"
    by (simp add: is_authorized_def world_of_def s_anon_def)
  show ?thesis
    using h func_wrapper_unauthorized [OF h, of cfg0 "net_of resp_not_found (resp_status 400)" 50
        "session_get (net_of resp_not_found (resp_status 400)) (api_call cfg0 ''logged_in_user'' [])"]
    by (simp add: get_logged_in_user_def world_of_def)
qed

text \<open>
  C1 as stated fails: with a fresh, unauthorized session \<^verbatim>\<open>get_logged_in_user()\<close> ends
  normally with the value \<^verbatim>\<open>False\<close>, not with an exception.
\<close>

theorem func_wrapper_unauthorized_counterexample:
  "is_authorized (world_of s_anon) = Inr False \<and>
   fst (get_logged_in_user cfg0 (net_of resp_not_found (resp_status 400)) 50 (world_of s_anon))
     = Inr (RBool False)"
  by (simp add: get_logged_in_user_def func_wrapper_def is_authorized_def world_of_def s_anon_def)

text \<open>
  C6: a wrapped call made while \<^verbatim>\<open>is_authorized()\<close> is true and \<^verbatim>\<open>token_valid()\<close> is false
  raises TokenExpiredError. The world is untouched and the result does not depend on the
  wrapped function, so the function was not invoked and no request was sent.
\<close>

theorem func_wrapper_expired:
  assumes "is_authorized w = Inr True" and "token_valid w now = Inr False"
  shows "func_wrapper cfg net now func w =
           (Inl (TokenExpiredError ''The supplied token has expired''), w)"
  using assms by (simp add: func_wrapper_def)

theorem func_wrapper_expired_witness:
  "is_authorized (world_of s_live) = Inr True \<and>
   token_valid (world_of s_live) 150 = Inr False \<and>
   get_user_projects cfg0 (net_of resp_not_found (resp_status 400)) 150 (world_of s_live) =
     (Inl (TokenExpiredError ''The supplied token has expired''), world_of s_live)"
proof -
  have a: "is_authorized (world_of s_live) = Inr True"
    by (simp add: is_authorized_def world_of_def s_live_def)
  have v: "token_valid (world_of s_live) 150 = Inr False"
    by (simp add: token_valid_def world_of_def s_live_def)
  show ?thesis
    using a v func_wrapper_expired [OF a v, of cfg0 "net_of resp_not_found (resp_status 400)"
        "session_get (net_of resp_not_found (resp_status 400)) (api_call cfg0 ''projects'' [])"]
    by (simp add: get_user_projects_def)
qed

text \<open>
  C10: \<^verbatim>\<open>is_authorized()\<close> does not imply \<^verbatim>\<open>token_valid()\<close>. There is a state with a
  stored, non-empty token in which \<^verbatim>\<open>is_authorized()\<close> is true and \<^verbatim>\<open>token_valid()\<close> is
  false: the token's \<^verbatim>\<open>expires_at\<close> has passed.
\<close>

theorem authorized_not_valid:
  "\<exists>w now s. session w = Some s \<and> token s \<noteq> [] \<and>
     is_authorized w = Inr True \<and> token_valid w now = Inr False"
proof -
  have "session (world_of s_live) = Some s_live \<and> token s_live \<noteq> [] \<and>
        is_authorized (world_of s_live) = Inr True \<and>
        token_valid (world_of s_live) 150 = Inr False"
    by (simp add: is_authorized_def token_valid_def world_of_def s_live_def)
  then show ?thesis by blast
qed

text \<open>
  C4: \<^verbatim>\<open>token_valid()\<close> returns true exactly when a session holds a non-empty token whose
  \<^verbatim>\<open>expires_at\<close> is later than now, and returns false exactly when there is no session,
  the token is empty, or \<^verbatim>\<open>expires_at\<close> is at or before now. The instant
  \<^verbatim>\<open>expires_at = now\<close> is on the false side.
\<close>

theorem token_valid_iff:
  "(token_valid w now = Inr True) =
     (\<exists>s e. session w = Some s \<and> token s \<noteq> [] \<and>
        map_of (token s) ''expires_at'' = Some (TNum e) \<and> now < e)
   \<and>
   (token_valid w now = Inr False) =
     (session w = None \<or>
      (\<exists>s. session w = Some s \<and>
         (token s = [] \<or>
          (\<exists>e. map_of (token s) ''expires_at'' = Some (TNum e) \<and> e \<le> now))))"
  by (auto simp: token_valid_def split: option.splits tval.splits)

theorem token_valid_iff_witness:
  "token_valid (world_of s_live) 100 = Inr False \<and>
   token_valid (world_of s_live) 99 = Inr True \<and>
   token_valid (world_of s_anon) 99 = Inr False"
  using token_valid_iff [of "world_of s_live" 100] token_valid_iff [of "world_of s_live" 99]
    token_valid_iff [of "world_of s_anon" 99]
  by (simp add: world_of_def s_live_def s_anon_def)

section \<open>Endpoint resolution\<close>

lemma api_calls_cases:
  assumes "api_calls c = Some t"
  shows "(c, t) \<in> set [(''logged_in_user'', ''users/me/''),
      (''projects'', ''users/me/nodes/''),
      (''project_repos'', ''nodes/{}/files/''),
      (''repo_files'', ''nodes/{}/files/{}/''),
      (''file_info'', ''files/{}/'')]"
  using assms unfolding api_calls_def by (rule map_of_SomeD)

text \<open>
  C7, as the code has it: for a registered command, an argument list shorter than the
  number of \<^verbatim>\<open>{}\<close> fields of its template raises IndexError, the failure of
  \<^verbatim>\<open>str.format\<close>. An argument list at least as long succeeds: \<^verbatim>\<open>str.format\<close> ignores the
  arguments beyond the fields, so the result is that of the first arguments alone.
\<close>

theorem api_call_arity:
  assumes "api_calls c = Some t"
  shows "(length args < placeholders t \<longrightarrow> api_call cfg c args = Inl IndexError) \<and>
         (placeholders t \<le> length args \<longrightarrow>
            (\<exists>u. api_call cfg c args = Inr (api_base_url cfg @ u)) \<and>
            api_call cfg c args = api_call cfg c (take (placeholders t) args))"
proof -
  from api_calls_cases [OF assms]
  consider "t = ''users/me/''" | "t = ''users/me/nodes/''" | "t = ''nodes/{}/files/''"
    | "t = ''files/{}/''" | "t = ''nodes/{}/files/{}/''"
    by auto
  then show ?thesis
  proof cases
    case 1
    then show ?thesis using assms
      by (simp add: api_call_def prepend_def)
  next
    case 2
    then show ?thesis using assms
      by (simp add: api_call_def prepend_def)
  next
    case 3
    then show ?thesis using assms
      by (cases args) (simp_all add: api_call_def prepend_def)
  next
    case 4
    then show ?thesis using assms
      by (cases args) (simp_all add: api_call_def prepend_def)
  next
    case 5
    show ?thesis
    proof (cases args)
      case Nil
      then show ?thesis using 5 assms by (simp add: api_call_def prepend_def)
    next
      case (Cons a r)
      then show ?thesis using 5 assms
        by (cases r) (simp_all add: api_call_def prepend_def)
    qed
  qed
qed

theorem api_call_arity_witness:
  "api_call cfg0 ''repo_files'' [''p''] = Inl IndexError \<and>
   api_call cfg0 ''project_repos'' [''p'', ''q''] = api_call cfg0 ''project_repos'' [''p'']"
proof -
  have r: "api_calls ''repo_files'' = Some ''nodes/{}/files/{}/''"
    and p: "api_calls ''project_repos'' = Some ''nodes/{}/files/''"
    by (simp_all add: api_calls_def)
  show ?thesis
    using api_call_arity [OF r, of "[''p'']" cfg0] api_call_arity [OF p, of "[''p'', ''q'']" cfg0]
    by simp
qed

text \<open>
  C7 as stated fails for too many arguments: \<^verbatim>\<open>api_call("logged_in_user", "x")\<close> has one
  argument for a template with no field, and returns the endpoint.
\<close>

theorem api_call_arity_counterexample:
  "api_calls ''logged_in_user'' = Some ''users/me/'' \<and>
   length [''x''] \<noteq> placeholders ''users/me/'' \<and>
   api_call cfg0 ''logged_in_user'' [''x''] = Inr ''https://a/users/me/''"
  by (simp add: api_calls_def api_call_def cfg0_def prepend_def)

text \<open>
  C8: \<^verbatim>\<open>api_call\<close> is a function of the settings, the command and the arguments.
  \<^verbatim>\<open>api_call("project_repos", "abc123")\<close> is the API base URL followed by
  \<^verbatim>\<open>nodes/abc123/files/\<close>, \<^verbatim>\<open>api_call("logged_in_user")\<close> is the base URL followed by
  \<^verbatim>\<open>users/me/\<close>, and a command that is not a key of \<^verbatim>\<open>api_calls\<close> raises KeyError, the
  module's form of the unknown-command error.
\<close>

theorem api_call_examples:
  "api_call cfg ''project_repos'' [''abc123''] = Inr (api_base_url cfg @ ''nodes/abc123/files/'')
   \<and> api_call cfg ''logged_in_user'' [] = Inr (api_base_url cfg @ ''users/me/'')
   \<and> (\<forall>c args. c \<notin> dom api_calls \<longrightarrow> api_call cfg c args = Inl KeyError)"
  by (auto simp: api_call_def api_calls_def prepend_def domIff)

theorem api_call_examples_witness:
  "''file'' \<notin> dom api_calls \<and> api_call cfg0 ''file'' [''x''] = Inl KeyError"
proof -
  have h: "''file'' \<notin> dom api_calls"
    by (simp add: api_calls_def dom_def)
  show ?thesis using h api_call_examples [of cfg0] by blast
qed

section \<open>Receiving the token\<close>














section \<open>Responses that are not a success\<close>

lemma live:
  "is_authorized (world_of s_live) = Inr True"
  "token_valid (world_of s_live) 50 = Inr True"
  "session (world_of s_live) = Some s_live"
  by (simp_all add: is_authorized_def token_valid_def world_of_def s_live_def)

lemma error_detail_body: "error_detail (Parsed (error_body d)) = Inr (JStr d)"
  by (simp add: error_detail_def error_body_def subscript_key_def subscript_0_def)

lemma error_detail_keys:
  assumes "error_detail (Parsed j) = Inr m"
  shows "\<exists>ks. keys_py (Parsed j) = Inr ks \<and> ''errors'' \<in> set ks"
proof (cases j)
  case (JObj kvs)
  with assms obtain es where "map_of kvs ''errors'' = Some es"
    by (auto simp: error_detail_def subscript_key_def split: option.splits)
  then have "(''errors'', es) \<in> set kvs" by (rule map_of_SomeD)
  then have "''errors'' \<in> fst ` set kvs" by force
  with JObj show ?thesis by (simp add: keys_py_def)
qed (use assms in \<open>simp_all add: error_detail_def subscript_key_def\<close>)

text \<open>
  C2, as the code has it: the wrapped call answered with a status other than 200, a JSON
  content type and a body whose \<^verbatim>\<open>errors[0].detail\<close> is the invalid-token message. The
  wrapper calls \<^verbatim>\<open>logout()\<close>, which posts the access token to the revocation endpoint.
  When the endpoint answers with a status other than 204, \<^verbatim>\<open>logout()\<close> keeps the session,
  and the wrapper raises TokenExpiredError with the message: the session, and with it
  \<^verbatim>\<open>is_authorized()\<close>, is what it was after the call.
\<close>

theorem invalid_token_response:
  assumes "is_authorized w = Inr True" and "token_valid w now = Inr True"
    and "func w = (Inr resp, w1)"
    and "status_code resp \<noteq> 200"
    and "content_type resp = Some ct"
    and "ct = ''application/json'' \<or> ct = ''application/vnd.api+json''"
    and "json_body resp = Inr j"
    and "error_detail (Parsed j) = Inr (JStr invalid_token_msg)"
    and "session w1 = Some s"
    and "net (Post (logout_url cfg) [(''token'', access_token s)]) = Inr lr"
    and "status_code lr \<noteq> 204"
  shows "func_wrapper cfg net now func w =
           (Inl (TokenExpiredError invalid_token_msg),
            w1\<lparr>sent := sent w1 @ [Post (logout_url cfg) [(''token'', access_token s)]],
               logged := logged w1 @ [(DEBUG, ''Error logging out'')]\<rparr>)
         \<and> session (snd (func_wrapper cfg net now func w)) = session w1"
proof -
  from error_detail_keys [OF assms(8)] obtain ks
    where ks: "keys_py (Parsed j) = Inr ks" "''errors'' \<in> set ks" by blast
  have lo: "logout cfg net w1 =
      (Inr False,
       w1\<lparr>sent := sent w1 @ [Post (logout_url cfg) [(''token'', access_token s)]],
          logged := logged w1 @ [(DEBUG, ''Error logging out'')]\<rparr>)"
    using assms(9-11) by (simp add: logout_def Let_def)
  have he: "handle_error cfg net resp w1 =
      (Inl (TokenExpiredError invalid_token_msg),
       w1\<lparr>sent := sent w1 @ [Post (logout_url cfg) [(''token'', access_token s)]],
          logged := logged w1 @ [(DEBUG, ''Error logging out'')]\<rparr>)"
    using assms(5-8) ks lo by (auto simp: handle_error_def Let_def)
  have "classify cfg net resp w1 = handle_error cfg net resp w1"
    using assms(4) by (simp add: classify_def)
  with he show ?thesis
    using assms(1-3) by (simp add: func_wrapper_def)
qed

theorem invalid_token_response_witness:
  "get_logged_in_user cfg0 net_refusing 50 (world_of s_live) =
     (Inl (TokenExpiredError invalid_token_msg),
      \<lparr>session = Some s_live,
       sent = [Get ''https://a/users/me/'',
               Post ''https://b/oauth2/revoke'' [(''token'', Some ''abc'')]],
       printed = [], logged = [(DEBUG, ''Error logging out'')]\<rparr>)"
proof -
  let ?w1 = "(world_of s_live)\<lparr>sent := [Get ''https://a/users/me/'']\<rparr>"
  have f: "session_get net_refusing (api_call cfg0 ''logged_in_user'' []) (world_of s_live) =
      (Inr resp_invalid_token, ?w1)"
    by (simp add: session_get_def api_call_def api_calls_def prepend_def net_refusing_def
        net_of_def world_of_def cfg0_def)
  have st: "status_code resp_invalid_token \<noteq> 200"
    and ct: "content_type resp_invalid_token = Some ''application/vnd.api+json''"
    and jb: "json_body resp_invalid_token = Inr (error_body invalid_token_msg)"
    by (simp_all add: resp_invalid_token_def)
  have s1: "session ?w1 = Some s_live" by (simp add: world_of_def)
  have po: "net_refusing (Post (logout_url cfg0) [(''token'', access_token s_live)]) =
      Inr (resp_status 400)"
    by (simp add: net_refusing_def net_of_def)
  have ls: "status_code (resp_status 400) \<noteq> 204" by (simp add: resp_status_def)
  have cj: "''application/vnd.api+json'' = ''application/json'' \<or>
      ''application/vnd.api+json'' = ''application/vnd.api+json''" by simp
  show ?thesis
    using invalid_token_response
      [where func = "session_get net_refusing (api_call cfg0 ''logged_in_user'' [])"
        and net = net_refusing and cfg = cfg0 and w = "world_of s_live" and s = s_live,
        OF live(1) live(2) f st ct cj jb error_detail_body s1 po ls]
    by (simp add: get_logged_in_user_def world_of_def logout_url_def cfg0_def s_live_def)
qed

text \<open>
  C2 as stated fails: the provider answers \<^verbatim>\<open>get_logged_in_user()\<close> with status 401 and
  the invalid-token message, and the revocation request with status 400. The wrapper
  raises TokenExpiredError and \<^verbatim>\<open>is_authorized()\<close> is still true.
\<close>

theorem invalid_token_response_counterexample:
  "fst (get_logged_in_user cfg0 net_refusing 50 (world_of s_live)) =
     Inl (TokenExpiredError ''User provided an invalid OAuth2 access token'') \<and>
   is_authorized (snd (get_logged_in_user cfg0 net_refusing 50 (world_of s_live))) = Inr True"
  by (simp add: get_logged_in_user_def func_wrapper_def live session_get_def api_call_def
      api_calls_def prepend_def net_refusing_def net_of_def classify_def resp_invalid_token_def
      handle_error_def keys_py_def error_body_def error_detail_def subscript_key_def
      subscript_0_def logout_def Let_def resp_status_def is_authorized_def s_live_def
      invalid_token_msg_def world_of_def token_valid_def)

text \<open>
  In the JSON branch of lines 168 to 184 no path raises \<^verbatim>\<open>OSFInvalidResponse\<close>: subscripts
  never raise AttributeError, and the final report reads \<^verbatim>\<open>headers\<close> from the decoded value.
\<close>

lemma error_detail_not_attribute_error: "error_detail r \<noteq> Inl AttributeError"
  by (auto simp: error_detail_def subscript_key_def subscript_0_def
      split: pyobj.splits json.splits option.splits list.splits sum.splits)

lemma report_parsed: "report (Parsed j) = AttributeError"
  by (simp add: report_def)

lemma logout_not_invalid: "fst (logout cfg net w) \<noteq> Inl (OSFInvalidResponse t) \<or> (\<exists>r. net r = Inl (OSFInvalidResponse t))"
  by (auto simp: logout_def Let_def split: option.splits sum.splits)

lemma handle_error_json_never_invalid:
  assumes "content_type resp = Some ct"
    and "ct = ''application/json'' \<or> ct = ''application/vnd.api+json''"
    and "\<And>r. net r \<noteq> Inl (OSFInvalidResponse t)"
  shows "fst (handle_error cfg net resp w) \<noteq> Inl (OSFInvalidResponse t)"
proof (cases "json_body resp")
  case (Inl m)
  then show ?thesis using assms(1,2)
    by (auto simp: handle_error_def keys_py_def Let_def)
next
  case (Inr j)
  show ?thesis
  proof (cases "keys_py (Parsed j)")
    case (Inl e)
    then have "e = AttributeError"
      by (auto simp: keys_py_def split: json.splits)
    with Inl Inr show ?thesis using assms(1,2)
      by (auto simp: handle_error_def Let_def)
  next
    case ks: (Inr ks)
    show ?thesis
    proof (cases "error_detail (Parsed j)")
      case (Inl e)
      with error_detail_not_attribute_error [of "Parsed j"] have ne: "e \<noteq> AttributeError" by auto
      have "e \<noteq> OSFInvalidResponse t" using Inl
        by (auto simp: error_detail_def subscript_key_def subscript_0_def
            split: json.splits option.splits list.splits sum.splits)
      with ne Inl Inr ks show ?thesis using assms(1,2)
        by (auto simp: handle_error_def report_parsed Let_def)
    next
      case msg: (Inr msg)
      have "fst (logout cfg net w) \<noteq> Inl (OSFInvalidResponse t)"
        using logout_not_invalid [of cfg net w t] assms(3) by auto
      then show ?thesis using Inr ks msg assms(1,2)
        by (auto simp: handle_error_def report_parsed Let_def split: prod.splits sum.splits)
    qed
  qed
qed

text \<open>
  C3, on the code: the provider answers \<^verbatim>\<open>get_logged_in_user()\<close> with status 404, a JSON
  content type and the error detail \<^verbatim>\<open>Not found.\<close>; the wrapper raises AttributeError,
  because \<^verbatim>\<open>response\<close> holds the decoded dictionary when \<^verbatim>\<open>response.headers\<close> is read.
  With status 500, content type \<^verbatim>\<open>application/json\<close> and a body that does not decode,
  the wrapper raises AttributeError too: the JSONDecodeError handler raises nothing, and
  the \<^verbatim>\<open>Response\<close> object has no \<^verbatim>\<open>keys()\<close>.
\<close>

theorem json_error_response_raises_attribute_error:
  "fst (get_logged_in_user cfg0 (net_of resp_not_found (resp_status 400)) 50 (world_of s_live))
     = Inl AttributeError \<and>
   fst (get_logged_in_user cfg0 (net_of resp_bad_json (resp_status 400)) 50 (world_of s_live))
     = Inl AttributeError"
  by (simp add: get_logged_in_user_def func_wrapper_def live session_get_def api_call_def
      api_calls_def prepend_def net_of_def classify_def resp_not_found_def resp_bad_json_def
      handle_error_def keys_py_def error_body_def error_detail_def subscript_key_def
      subscript_0_def Let_def report_def invalid_token_msg_def)

section \<open>Logging out\<close>

text \<open>
  When the revocation endpoint answers with a status other than 204, \<^verbatim>\<open>logout()\<close> returns
  \<^verbatim>\<open>False\<close> and keeps the session.
\<close>

lemma logout_refused:
  assumes "session w = Some s"
    and "net (Post (logout_url cfg) [(''token'', access_token s)]) = Inr lr"
    and "status_code lr \<noteq> 204"
  shows "fst (logout cfg net w) = Inr False \<and> session (snd (logout cfg net w)) = session w"
  using assms by (simp add: logout_def Let_def)

text \<open>
  C5, on the code: the revocation endpoint answers with status 204. \<^verbatim>\<open>logout()\<close> logs
  \<^verbatim>\<open>User logged out\<close> and raises NameError at \<^verbatim>\<open>reset_session()\<close>; it returns nothing and
  the session is the one from before.
\<close>

theorem logout_confirmed_raises:
  "logout cfg0 (net_of resp_not_found (resp_status 204)) (world_of s_live) =
     (Inl (NameError ''reset_session''),
      \<lparr>session = Some s_live,
       sent = [Post ''https://b/oauth2/revoke'' [(''token'', Some ''abc'')]],
       printed = [], logged = [(INFO, ''User logged out'')]\<rparr>)"
  by (simp add: logout_def Let_def world_of_def net_of_def resp_status_def logout_url_def
      cfg0_def s_live_def)

end
